theory Spec2Isabelle
  imports Complex_Main "HOL-Library.Sublist" "HOL-Library.Multiset"
begin

section \<open>The data grid of App.tsx\<close>

text \<open>
  The development follows \<^verbatim>\<open>src/App.tsx\<close>: the query pipeline (\<^verbatim>\<open>processedRows\<close>),
  the viewport window (\<^verbatim>\<open>visibleRows\<close>), the sort toggle, the column drop, the
  inline cell edit, the cleaning actions and the start-up load of the persisted state.
  React state is passed explicitly; a state setter is the function from the old state
  to the new one.
\<close>

subsection \<open>Cell values\<close>

text \<open>
  A cell holds a JavaScript number, a string, \<^verbatim>\<open>null\<close> or \<^verbatim>\<open>undefined\<close> (a key that
  is absent reads as \<^verbatim>\<open>undefined\<close>). A finite number is kept as the rational it
  denotes; the three non-finite numbers are separate values. Strings are byte strings.
\<close>

datatype jsnum = Finite rat | NaN | PosInfinity | NegInfinity

datatype jsval = JNum jsnum | JStr string | JNull | JUndefined

text \<open>
  A row object is the list of its own properties in property order: that order is what
  \<^verbatim>\<open>Object.values\<close> and \<^verbatim>\<open>JSON.stringify\<close> walk through.
\<close>

type_synonym row = "(string \<times> jsval) list"

text \<open>The optional \<^verbatim>\<open>metadata\<close> of a dataset is read by none of the functions below.\<close>

record Dataset =
  id' :: string
  name :: string
  columns :: "string list"
  rows :: "row list"
  summary :: string

datatype direction = Asc | Desc

record SortConfig =
  key :: string
  direction :: "direction option"

record ActiveFilter =
  filter_id :: string
  column :: string
  operator :: string
  value' :: jsval
  valueEnd :: jsval

subsection \<open>Viewport window\<close>

definition ROW_HEIGHT :: int where
  "ROW_HEIGHT = 65"

definition BUFFER_COUNT :: int where
  "BUFFER_COUNT = 5"

text \<open>
  \<^verbatim>\<open>Array.prototype.slice(start, end)\<close>: a negative bound counts from the end, and
  both bounds are clamped to the array.
\<close>

definition slice :: "'a list \<Rightarrow> int \<Rightarrow> int \<Rightarrow> 'a list" where
  "slice xs start fin =
     (let len = int (length xs);
          k = (if start < 0 then max (len + start) 0 else min start len);
          final = (if fin < 0 then max (len + fin) 0 else min fin len)
      in take (nat (final - k)) (drop (nat k) xs))"

text \<open>
  The body of the \<^verbatim>\<open>visibleRows\<close> memo. \<^verbatim>\<open>scrollTop\<close> and
  \<^verbatim>\<open>tableContainerHeight\<close> are pixel measures the browser reports, possibly
  fractional.
\<close>

definition totalContentHeight :: "nat \<Rightarrow> int" where
  "totalContentHeight totalCount = int totalCount * ROW_HEIGHT"

definition startIndex :: "rat \<Rightarrow> int" where
  "startIndex scrollTop = max 0 (\<lfloor>scrollTop / of_int ROW_HEIGHT\<rfloor> - BUFFER_COUNT)"

definition endIndex :: "nat \<Rightarrow> rat \<Rightarrow> rat \<Rightarrow> int" where
  "endIndex totalCount scrollTop tableContainerHeight =
     min (int totalCount)
       (\<lceil>(scrollTop + tableContainerHeight) / of_int ROW_HEIGHT\<rceil> + BUFFER_COUNT)"


record visibleRow =
  data :: row
  originalIndex :: int

definition visibleRows :: "row list \<Rightarrow> rat \<Rightarrow> rat \<Rightarrow> visibleRow list" where
  "visibleRows processed scrollTop tableContainerHeight =
     (let sl = slice processed (startIndex scrollTop)
                 (endIndex (length processed) scrollTop tableContainerHeight)
      in map (\<lambda>(i, r). \<lparr>data = r, originalIndex = startIndex scrollTop + int i\<rparr>)
           (zip [0 ..< length sl] sl))"

subsection \<open>Sort toggle\<close>

definition handleSort :: "string \<Rightarrow> SortConfig \<Rightarrow> SortConfig" where
  "handleSort k prev =
     (if key prev = k then
        (if direction prev = Some Asc then \<lparr>key = k, direction = Some Desc\<rparr>
         else if direction prev = Some Desc then \<lparr>key = k, direction = None\<rparr>
         else \<lparr>key = k, direction = Some Asc\<rparr>)
      else \<lparr>key = k, direction = Some Asc\<rparr>)"

subsection \<open>The built-ins of the JavaScript runtime\<close>

text \<open>
  The pipeline calls built-ins whose results depend on the ECMAScript number formatter,
  number parser, Unicode case mapping and the host's collation. They are not code of
  the repository and enter as a parameter: every definition below takes the runtime
  \<open>rt\<close>, and a theorem stated for \<open>rt\<close> holds for every runtime.
  \<^item> \<open>NumberToString\<close>: the text of a finite number (\<^verbatim>\<open>String(n)\<close>, also used by
    \<^verbatim>\<open>JSON.stringify\<close>);
  \<^item> \<open>StringToNumber\<close>: \<^verbatim>\<open>Number(s)\<close> on a string;
  \<^item> \<open>toLowerCase\<close>, \<open>trim\<close>: the string methods;
  \<^item> \<open>localeCompare\<close>: negative, zero or positive;
  \<^item> \<open>QuoteJSONString\<close>: a string as a JSON string literal.
\<close>

record js_runtime =
  NumberToString :: "rat \<Rightarrow> string"
  StringToNumber :: "string \<Rightarrow> jsnum"
  toLowerCase :: "string \<Rightarrow> string"
  trim :: "string \<Rightarrow> string"
  localeCompare :: "string \<Rightarrow> string \<Rightarrow> int"
  QuoteJSONString :: "string \<Rightarrow> string"

text \<open>\<^verbatim>\<open>String(v)\<close> and \<^verbatim>\<open>Number(v)\<close> on a cell value.\<close>

fun ToString :: "js_runtime \<Rightarrow> jsval \<Rightarrow> string" where
  "ToString rt (JNum (Finite q)) = NumberToString rt q"
| "ToString rt (JNum NaN) = ''NaN''"
| "ToString rt (JNum PosInfinity) = ''Infinity''"
| "ToString rt (JNum NegInfinity) = ''-Infinity''"
| "ToString rt (JStr s) = s"
| "ToString rt JNull = ''null''"
| "ToString rt JUndefined = ''undefined''"

fun ToNumber :: "js_runtime \<Rightarrow> jsval \<Rightarrow> jsnum" where
  "ToNumber rt (JNum n) = n"
| "ToNumber rt (JStr s) = StringToNumber rt s"
| "ToNumber rt JNull = Finite 0"
| "ToNumber rt JUndefined = NaN"

text \<open>
  The relational operators on numbers: every comparison with \<^verbatim>\<open>NaN\<close> is false.
  \<open>num_less a b\<close> is \<^verbatim>\<open>a < b\<close> and \<open>num_le a b\<close> is \<^verbatim>\<open>a <= b\<close>.
\<close>

fun num_less :: "jsnum \<Rightarrow> jsnum \<Rightarrow> bool" where
  "num_less (Finite x) (Finite y) = (x < y)"
| "num_less (Finite x) PosInfinity = True"
| "num_less NegInfinity (Finite y) = True"
| "num_less NegInfinity PosInfinity = True"
| "num_less a b = False"

fun num_le :: "jsnum \<Rightarrow> jsnum \<Rightarrow> bool" where
  "num_le NaN b = False"
| "num_le a NaN = False"
| "num_le a b = (a = b \<or> num_less a b)"

text \<open>
  The sign of \<^verbatim>\<open>a - b\<close> as a sort comparator reads it: \<^verbatim>\<open>NaN\<close> (from a \<^verbatim>\<open>NaN\<close>
  operand, or from two infinities of one sign) counts as zero.
\<close>

definition minus_sign :: "jsnum \<Rightarrow> jsnum \<Rightarrow> int" where
  "minus_sign a b = (if num_less a b then - 1 else if num_less b a then 1 else 0)"

text \<open>\<^verbatim>\<open>s.includes(sub)\<close>: \<open>sub\<close> occurs in \<open>s\<close> as a contiguous run.\<close>

definition includes' :: "string \<Rightarrow> string \<Rightarrow> bool" where
  "includes' s sub = sublist sub s"

text \<open>\<^verbatim>\<open>row[col]\<close>, and the object spread \<^verbatim>\<open>{ ...row, [col]: v }\<close>: an existing key
  keeps its place, a new key goes last.\<close>

definition get_prop :: "row \<Rightarrow> string \<Rightarrow> jsval" where
  "get_prop r k = (case map_of r k of None \<Rightarrow> JUndefined | Some v \<Rightarrow> v)"

fun set_prop :: "row \<Rightarrow> string \<Rightarrow> jsval \<Rightarrow> row" where
  "set_prop [] k v = [(k, v)]"
| "set_prop ((k', v') # ps) k v =
     (if k' = k then (k, v) # ps else (k', v') # set_prop ps k v)"

subsection \<open>Query pipeline\<close>

text \<open>The callback of \<^verbatim>\<open>activeFilters.every\<close>: the \<^verbatim>\<open>switch\<close> on the operator tag.\<close>

definition filterPredicate :: "js_runtime \<Rightarrow> row \<Rightarrow> ActiveFilter \<Rightarrow> bool" where
  "filterPredicate rt r f =
     (let val = get_prop r (column f) in
      if operator f = ''equals'' then ToString rt val = ToString rt (value' f)
      else if operator f = ''contains'' then
        includes' (toLowerCase rt (ToString rt val)) (toLowerCase rt (ToString rt (value' f)))
      else if operator f = ''gt'' then num_less (ToNumber rt (value' f)) (ToNumber rt val)
      else if operator f = ''lt'' then num_less (ToNumber rt val) (ToNumber rt (value' f))
      else if operator f = ''between'' then
        num_le (ToNumber rt (value' f)) (ToNumber rt val)
        \<and> num_le (ToNumber rt val) (ToNumber rt (valueEnd f))
      else True)"

definition filterStage :: "js_runtime \<Rightarrow> ActiveFilter list \<Rightarrow> row list \<Rightarrow> row list" where
  "filterStage rt activeFilters rs =
     (if length activeFilters > 0
      then filter (\<lambda>r. list_all (filterPredicate rt r) activeFilters) rs
      else rs)"

definition searchStage :: "js_runtime \<Rightarrow> string \<Rightarrow> row list \<Rightarrow> row list" where
  "searchStage rt searchQuery rs =
     (if searchQuery \<noteq> [] then
        (let q = toLowerCase rt searchQuery
         in filter (\<lambda>r. list_ex (\<lambda>v. includes' (toLowerCase rt (ToString rt v)) q) (map snd r)) rs)
      else rs)"

text \<open>The comparator handed to \<^verbatim>\<open>rows.sort\<close>.\<close>

definition compareRows :: "js_runtime \<Rightarrow> SortConfig \<Rightarrow> row \<Rightarrow> row \<Rightarrow> int" where
  "compareRows rt sc a b =
     (let valA = get_prop a (key sc); valB = get_prop b (key sc) in
      case (valA, valB) of
        (JNum x, JNum y) \<Rightarrow>
          (if direction sc = Some Asc then minus_sign x y else minus_sign y x)
      | _ \<Rightarrow>
          (if direction sc = Some Asc
           then localeCompare rt (ToString rt valA) (ToString rt valB)
           else localeCompare rt (ToString rt valB) (ToString rt valA)))"

text \<open>
  \<^verbatim>\<open>Array.prototype.sort\<close> with a comparator is a stable sort (ECMAScript 2019):
  stable insertion, an element going in front of the first later element it does not
  exceed. For a comparator that is not a consistent order the standard leaves the
  result to the implementation.
\<close>

fun sort_insert :: "('a \<Rightarrow> 'a \<Rightarrow> int) \<Rightarrow> 'a \<Rightarrow> 'a list \<Rightarrow> 'a list" where
  "sort_insert cmp x [] = [x]"
| "sort_insert cmp x (y # ys) =
     (if cmp x y \<le> 0 then x # y # ys else y # sort_insert cmp x ys)"

definition array_sort :: "('a \<Rightarrow> 'a \<Rightarrow> int) \<Rightarrow> 'a list \<Rightarrow> 'a list" where
  "array_sort cmp xs = foldr (sort_insert cmp) xs []"

definition sortStage :: "js_runtime \<Rightarrow> SortConfig \<Rightarrow> row list \<Rightarrow> row list" where
  "sortStage rt sc rs =
     (if key sc \<noteq> [] \<and> direction sc \<noteq> None then array_sort (compareRows rt sc) rs else rs)"

subsection \<open>Application state\<close>

datatype js_error = TypeError | SyntaxError

text \<open>
  Of a cleaning suggestion the fields the handler reads; the issue text and the severity
  are display only.
\<close>

record CleaningSuggestion =
  suggestion_id :: string
  suggestion_column :: string
  suggestion :: string
  actionType :: "string option"

record AppState =
  datasets :: "Dataset list"
  activeDatasetId :: "string option"
  activeFilters :: "ActiveFilter list"
  searchQuery :: string
  sortConfig :: SortConfig
  columnOrder :: "string list"
  editingCell :: "(int \<times> string) option"
  draggedColumn :: "string option"
  scrollTop :: rat
  tableContainerHeight :: rat
  cleaningSuggestions :: "CleaningSuggestion list"
  notification :: "(string \<times> string) option"

text \<open>\<^verbatim>\<open>!activeDatasetId\<close>: the id is \<^verbatim>\<open>null\<close> or the empty string.\<close>

definition noActiveId :: "string option \<Rightarrow> bool" where
  "noActiveId a = (a = None \<or> a = Some [])"

definition activeDataset :: "AppState \<Rightarrow> Dataset option" where
  "activeDataset st = find (\<lambda>d. Some (id' d) = activeDatasetId st) (datasets st)"

definition processedRows :: "js_runtime \<Rightarrow> AppState \<Rightarrow> row list" where
  "processedRows rt st =
     (case activeDataset st of
        None \<Rightarrow> []
      | Some d \<Rightarrow>
          sortStage rt (sortConfig st)
            (searchStage rt (searchQuery st)
              (filterStage rt (activeFilters st) (rows d))))"

text \<open>The rows the table body renders, each with the index it hands to the edit.\<close>

definition renderedRows :: "js_runtime \<Rightarrow> AppState \<Rightarrow> visibleRow list" where
  "renderedRows rt st =
     visibleRows (processedRows rt st) (scrollTop st) (tableContainerHeight st)"

definition clearAllFilters :: "AppState \<Rightarrow> AppState" where
  "clearAllFilters st =
     st\<lparr>activeFilters := [], searchQuery := [],
        notification := Some (''Workspace cleared'', ''info'')\<rparr>"

text \<open>The state the \<^verbatim>\<open>useState\<close> initializers give, for the loaded dataset list.\<close>

definition initialAppState :: "Dataset list \<Rightarrow> AppState" where
  "initialAppState ds =
     \<lparr>datasets = ds,
      activeDatasetId =
        (case ds of [] \<Rightarrow> None | d # _ \<Rightarrow> if id' d = [] then None else Some (id' d)),
      activeFilters = [],
      searchQuery = [],
      sortConfig = \<lparr>key = [], direction = None\<rparr>,
      columnOrder = [],
      editingCell = None,
      draggedColumn = None,
      scrollTop = 0,
      tableContainerHeight = 0,
      cleaningSuggestions = [],
      notification = None\<rparr>"

subsection \<open>Column drop\<close>

text \<open>\<^verbatim>\<open>Array.prototype.indexOf\<close> (-1 when absent) and \<^verbatim>\<open>Array.prototype.splice\<close>
  (a negative start counts from the end).\<close>

fun indexOf :: "'a list \<Rightarrow> 'a \<Rightarrow> int" where
  "indexOf [] x = - 1"
| "indexOf (y # ys) x =
     (if y = x then 0 else (let i = indexOf ys x in if i < 0 then - 1 else i + 1))"

definition splice' :: "'a list \<Rightarrow> int \<Rightarrow> nat \<Rightarrow> 'a list \<Rightarrow> 'a list" where
  "splice' xs start deleteCount items =
     (let len = int (length xs);
          k = nat (if start < 0 then max (len + start) 0 else min start len);
          n = min deleteCount (length xs - k)
      in take k xs @ items @ drop (k + n) xs)"

text \<open>\<open>sourceCol\<close> is what \<^verbatim>\<open>dataTransfer.getData('column')\<close> returns: the empty
  string when the drag carries no such item.\<close>

definition handleColumnDrop :: "string \<Rightarrow> string \<Rightarrow> AppState \<Rightarrow> AppState" where
  "handleColumnDrop sourceCol targetCol st =
     (if sourceCol = [] \<or> sourceCol = targetCol then st
      else
        (let newOrder = columnOrder st;
             sIdx = indexOf newOrder sourceCol;
             tIdx = indexOf newOrder targetCol;
             removed = splice' newOrder sIdx 1 [];
             inserted = splice' removed tIdx 0 [sourceCol]
         in st\<lparr>columnOrder := inserted, draggedColumn := None\<rparr>))"

subsection \<open>Inline cell edit\<close>

fun mapE :: "('a \<Rightarrow> js_error + 'b) \<Rightarrow> 'a list \<Rightarrow> js_error + 'b list" where
  "mapE f [] = Inr []"
| "mapE f (x # xs) =
     (case f x of
        Inl e \<Rightarrow> Inl e
      | Inr y \<Rightarrow> (case mapE f xs of Inl e \<Rightarrow> Inl e | Inr ys \<Rightarrow> Inr (y # ys)))"

text \<open>
  The body of the updater for the active dataset. Reading a column of
  \<^verbatim>\<open>updatedRows[rowIndex]\<close> throws a TypeError when the index is outside the array.
\<close>

definition editRows ::
  "js_runtime \<Rightarrow> int \<Rightarrow> string \<Rightarrow> jsval \<Rightarrow> row list \<Rightarrow> js_error + row list" where
  "editRows rt rowIndex col v updatedRows =
     (if rowIndex < 0 \<or> int (length updatedRows) \<le> rowIndex then Inl TypeError
      else
        (let i = nat rowIndex;
             originalValue = get_prop (updatedRows ! i) col;
             typedValue = (case originalValue of JNum n \<Rightarrow> JNum (ToNumber rt v) | _ \<Rightarrow> v)
         in Inr (updatedRows[i := set_prop (updatedRows ! i) col typedValue])))"

definition handleCellEdit ::
  "js_runtime \<Rightarrow> int \<Rightarrow> string \<Rightarrow> jsval \<Rightarrow> AppState \<Rightarrow> js_error + AppState" where
  "handleCellEdit rt rowIndex col v st =
     (if noActiveId (activeDatasetId st) then Inr st
      else
        (case mapE (\<lambda>d. if Some (id' d) \<noteq> activeDatasetId st then Inr d
                         else (case editRows rt rowIndex col v (rows d) of
                                 Inl e \<Rightarrow> Inl e
                               | Inr updatedRows \<Rightarrow> Inr (d\<lparr>rows := updatedRows\<rparr>)))
                (datasets st) of
           Inl e \<Rightarrow> Inl e
         | Inr ds \<Rightarrow> Inr (st\<lparr>datasets := ds, editingCell := None\<rparr>)))"

subsection \<open>Cleaning actions\<close>

fun join :: "string \<Rightarrow> string list \<Rightarrow> string" where
  "join sep [] = []"
| "join sep [x] = x"
| "join sep (x # y # ys) = x @ sep @ join sep (y # ys)"

text \<open>
  \<^verbatim>\<open>JSON.stringify\<close> of a row object: a property whose value is \<^verbatim>\<open>undefined\<close> is
  left out, and a number that is not finite is written \<^verbatim>\<open>null\<close>.
\<close>

fun json_value :: "js_runtime \<Rightarrow> jsval \<Rightarrow> string" where
  "json_value rt (JNum (Finite q)) = NumberToString rt q"
| "json_value rt (JNum n) = ''null''"
| "json_value rt (JStr s) = QuoteJSONString rt s"
| "json_value rt JNull = ''null''"
| "json_value rt JUndefined = ''null''"

definition JSON_stringify :: "js_runtime \<Rightarrow> row \<Rightarrow> string" where
  "JSON_stringify rt r =
     ''{'' @ join '',''
        (map (\<lambda>(k, v). QuoteJSONString rt k @ '':'' @ json_value rt v)
           (filter (\<lambda>(k, v). v \<noteq> JUndefined) r)) @ ''}''"

text \<open>The \<^verbatim>\<open>deduplicate\<close> filter; \<open>seen\<close> is the set its callback fills.\<close>

fun deduplicate :: "js_runtime \<Rightarrow> string set \<Rightarrow> row list \<Rightarrow> row list" where
  "deduplicate rt seen [] = []"
| "deduplicate rt seen (r # rs) =
     (let val = JSON_stringify rt r in
      if val \<in> seen then deduplicate rt seen rs
      else r # deduplicate rt (insert val seen) rs)"

text \<open>The \<^verbatim>\<open>switch\<close> on the action type.\<close>

definition cleanRows :: "js_runtime \<Rightarrow> CleaningSuggestion \<Rightarrow> row list \<Rightarrow> row list" where
  "cleanRows rt s newRows =
     (let col = suggestion_column s in
      if actionType s = Some ''remove_nulls'' then
        filter (\<lambda>r. get_prop r col \<noteq> JNull \<and> get_prop r col \<noteq> JUndefined
                     \<and> get_prop r col \<noteq> JStr []) newRows
      else if actionType s = Some ''deduplicate'' then deduplicate rt {} newRows
      else if actionType s = Some ''normalize'' then
        map (\<lambda>r. set_prop r col
               (case get_prop r col of JStr x \<Rightarrow> JStr (trim rt x) | v \<Rightarrow> v)) newRows
      else if actionType s = Some ''convert_types'' then
        map (\<lambda>r. let val = get_prop r col in
               set_prop r col
                 (if ToNumber rt val \<noteq> NaN \<and> val \<noteq> JStr []
                  then JNum (ToNumber rt val) else val)) newRows
      else newRows)"

definition applyCleaningSuggestion ::
  "js_runtime \<Rightarrow> CleaningSuggestion \<Rightarrow> AppState \<Rightarrow> AppState" where
  "applyCleaningSuggestion rt s st =
     (if noActiveId (activeDatasetId st) then st
      else st\<lparr>
        datasets :=
          map (\<lambda>d. if Some (id' d) \<noteq> activeDatasetId st then d
                    else d\<lparr>rows := cleanRows rt s (rows d)\<rparr>) (datasets st),
        cleaningSuggestions :=
          filter (\<lambda>x. suggestion_id x \<noteq> suggestion_id s) (cleaningSuggestions st),
        notification := Some (''Successfully applied: '' @ suggestion s, ''success'')\<rparr>)"

subsection \<open>Start-up load of the persisted state\<close>

text \<open>
  \<^verbatim>\<open>JSON.parse(localStorage.getItem(k) || '[]')\<close>. \<open>localStorage\<close> maps a key to its
  stored text; \<^verbatim>\<open>getItem\<close> gives \<^verbatim>\<open>null\<close> for a key that is not stored, and
  \<^verbatim>\<open>||\<close> takes its right operand for \<^verbatim>\<open>null\<close> and for the empty string.
  \<open>JSON_parse\<close> is the built-in: its result is the parsed value, or the SyntaxError it
  throws. Nothing around the call catches.
\<close>

definition or_else :: "string option \<Rightarrow> string \<Rightarrow> string" where
  "or_else item dflt = (case item of None \<Rightarrow> dflt | Some s \<Rightarrow> if s = [] then dflt else s)"

definition initialDatasets ::
  "(string \<Rightarrow> js_error + 'a) \<Rightarrow> (string \<rightharpoonup> string) \<Rightarrow> js_error + 'a" where
  "initialDatasets JSON_parse localStorage =
     JSON_parse (or_else (localStorage ''datasets'') ''[]'')"

definition initialSessions ::
  "(string \<Rightarrow> js_error + 'b) \<Rightarrow> (string \<rightharpoonup> string) \<Rightarrow> js_error + 'b" where
  "initialSessions JSON_parse localStorage =
     JSON_parse (or_else (localStorage ''sessions'') ''[]'')"

text \<open>The two initializers run in turn; the first throw ends the start-up.\<close>

definition initialState ::
  "(string \<Rightarrow> js_error + 'a) \<Rightarrow> (string \<Rightarrow> js_error + 'b) \<Rightarrow> (string \<rightharpoonup> string)
     \<Rightarrow> js_error + ('a \<times> 'b)" where
  "initialState parse_datasets parse_sessions localStorage =
     (case initialDatasets parse_datasets localStorage of
        Inl e \<Rightarrow> Inl e
      | Inr ds \<Rightarrow>
          (case initialSessions parse_sessions localStorage of
             Inl e \<Rightarrow> Inl e
           | Inr ss \<Rightarrow> Inr (ds, ss)))"

subsection \<open>A reference runtime for ASCII text and decimal numerals\<close>

text \<open>
  Concrete built-ins for evaluating examples. Each agrees with ECMAScript on the
  fragment named with it; the general theorems do not depend on them.
  \<^item> \<open>ascii_toLowerCase\<close>, \<open>ascii_trim\<close>: exact on ASCII text.
  \<^item> \<open>ascii_QuoteJSONString\<close>: exact on ASCII text.
  \<^item> \<open>codeunit_compare\<close>: order by character code; the order every collation gives on
    words of lower-case ASCII letters.
  \<^item> \<open>decimal_StringToNumber\<close>: the decimal forms of a numeric string (sign, digits,
    fraction, exponent, \<^verbatim>\<open>Infinity\<close>, blank text is 0), with the exact value in place
    of the nearest double; the \<^verbatim>\<open>0x\<close>, \<^verbatim>\<open>0o\<close> and \<^verbatim>\<open>0b\<close> forms are not covered.
  \<^item> \<open>decimal_NumberToString\<close>: positional notation; exact for integers below
    \<open>10 ^ 21\<close> in magnitude.
\<close>

definition ascii_toLowerCase :: "string \<Rightarrow> string" where
  "ascii_toLowerCase s =
     map (\<lambda>c. let n = (of_char c :: nat) in
            if 65 \<le> n \<and> n \<le> 90 then char_of (n + 32) else c) s"

definition ascii_space :: "char \<Rightarrow> bool" where
  "ascii_space c = ((of_char c :: nat) \<in> {9, 10, 11, 12, 13, 32})"

definition ascii_trim :: "string \<Rightarrow> string" where
  "ascii_trim s = rev (dropWhile ascii_space (rev (dropWhile ascii_space s)))"

definition hex_digit :: "nat \<Rightarrow> char" where
  "hex_digit n = (if n < 10 then char_of (48 + n) else char_of (87 + n))"

definition json_escape :: "char \<Rightarrow> string" where
  "json_escape c =
     (let n = (of_char c :: nat) in
      if n = 34 then [CHR 0x5C, CHR 0x22]
      else if n = 92 then [CHR 0x5C, CHR 0x5C]
      else if n = 8 then [CHR 0x5C, CHR ''b'']
      else if n = 9 then [CHR 0x5C, CHR ''t'']
      else if n = 10 then [CHR 0x5C, CHR ''n'']
      else if n = 12 then [CHR 0x5C, CHR ''f'']
      else if n = 13 then [CHR 0x5C, CHR ''r'']
      else if n < 32 then [CHR 0x5C, CHR ''u'', CHR ''0'', CHR ''0'',
                           hex_digit (n div 16), hex_digit (n mod 16)]
      else [c])"

definition ascii_QuoteJSONString :: "string \<Rightarrow> string" where
  "ascii_QuoteJSONString s = [CHR 0x22] @ concat (map json_escape s) @ [CHR 0x22]"

fun codeunit_compare :: "string \<Rightarrow> string \<Rightarrow> int" where
  "codeunit_compare [] [] = 0"
| "codeunit_compare [] (y # ys) = - 1"
| "codeunit_compare (x # xs) [] = 1"
| "codeunit_compare (x # xs) (y # ys) =
     (if x = y then codeunit_compare xs ys
      else if (of_char x :: nat) < of_char y then - 1 else 1)"

definition is_digit :: "char \<Rightarrow> bool" where
  "is_digit c = (48 \<le> (of_char c :: nat) \<and> (of_char c :: nat) \<le> 57)"

definition digits_value :: "string \<Rightarrow> nat" where
  "digits_value ds = foldl (\<lambda>a c. 10 * a + (of_char c - 48)) 0 ds"

definition split_sign :: "string \<Rightarrow> int \<times> string" where
  "split_sign s =
     (case s of
        [] \<Rightarrow> (1, [])
      | c # u \<Rightarrow> if c = CHR ''-'' then (- 1, u) else if c = CHR ''+'' then (1, u) else (1, s))"

definition exponent_part :: "string \<Rightarrow> int option" where
  "exponent_part s =
     (case s of
        [] \<Rightarrow> Some 0
      | c # u \<Rightarrow>
          if c = CHR ''e'' \<or> c = CHR ''E'' then
            (let (sg, ds) = split_sign u in
             if ds \<noteq> [] \<and> list_all is_digit ds then Some (sg * int (digits_value ds)) else None)
          else None)"

definition scale10 :: "rat \<Rightarrow> int \<Rightarrow> rat" where
  "scale10 m e = (if 0 \<le> e then m * 10 ^ nat e else m / 10 ^ nat (- e))"

definition decimal_StringToNumber :: "string \<Rightarrow> jsnum" where
  "decimal_StringToNumber s =
     (let t = ascii_trim s in
      if t = [] then Finite 0
      else if t = ''Infinity'' \<or> t = ''+Infinity'' then PosInfinity
      else if t = ''-Infinity'' then NegInfinity
      else
        (let (sg, body) = split_sign t;
             ip = takeWhile is_digit body;
             r1 = dropWhile is_digit body;
             dot = (r1 \<noteq> [] \<and> hd r1 = CHR ''.'');
             fp = (if dot then takeWhile is_digit (tl r1) else []);
             r2 = (if dot then dropWhile is_digit (tl r1) else r1)
         in if ip = [] \<and> fp = [] then NaN
            else (case exponent_part r2 of
                    None \<Rightarrow> NaN
                  | Some e \<Rightarrow>
                      Finite (scale10
                        (of_int sg * (of_nat (digits_value ip)
                           + of_nat (digits_value fp) / 10 ^ length fp)) e))))"

fun nat_digits :: "nat \<Rightarrow> nat \<Rightarrow> string" where
  "nat_digits 0 n = []"
| "nat_digits (Suc fuel) n =
     (if n < 10 then [char_of (48 + n)]
      else nat_digits fuel (n div 10) @ [char_of (48 + n mod 10)])"

fun frac_digits :: "nat \<Rightarrow> rat \<Rightarrow> string" where
  "frac_digits 0 r = []"
| "frac_digits (Suc fuel) r =
     (if r = 0 then []
      else (let d = \<lfloor>r * 10\<rfloor> in char_of (48 + nat d) # frac_digits fuel (r * 10 - of_int d)))"

definition decimal_NumberToString :: "rat \<Rightarrow> string" where
  "decimal_NumberToString q =
     (let a = \<bar>q\<bar>; w = nat \<lfloor>a\<rfloor>; f = a - of_nat w in
      (if q < 0 then ''-'' else []) @ nat_digits (Suc w) w
        @ (if f = 0 then [] else ''.'' @ frac_digits 20 f))"

definition reference_runtime :: js_runtime where
  "reference_runtime =
     \<lparr>NumberToString = decimal_NumberToString,
      StringToNumber = decimal_StringToNumber,
      toLowerCase = ascii_toLowerCase,
      trim = ascii_trim,
      localeCompare = codeunit_compare,
      QuoteJSONString = ascii_QuoteJSONString\<rparr>"

text \<open>
  \<^verbatim>\<open>JSON.parse\<close> on the two kinds of text the start-up examples store: the text
  \<^verbatim>\<open>[]\<close> is the empty array, and a text that is no JSON text throws a SyntaxError.
  It does not decode any other JSON text.
\<close>

definition array_literal_parse :: "string \<Rightarrow> js_error + 'a list" where
  "array_literal_parse s = (if ascii_trim s = ''[]'' then Inr [] else Inl SyntaxError)"

section \<open>Properties\<close>

subsection \<open>Auxiliary facts\<close>




lemma filterStage_as_filter:
  "filterStage rt fs rs = filter (\<lambda>r. list_all (filterPredicate rt r) fs) rs"
  by (cases fs) (simp_all add: filterStage_def)

text \<open>The sort stage only reorders.\<close>

lemma mset_sort_insert: "mset (sort_insert cmp x xs) = add_mset x (mset xs)"
  by (induction xs) simp_all

lemma mset_array_sort: "mset (array_sort cmp xs) = mset xs"
  by (induction xs) (simp_all add: array_sort_def mset_sort_insert)

lemma mset_sortStage: "mset (sortStage rt sc rs) = mset rs"
  by (simp add: sortStage_def mset_array_sort)

lemma activeDataset_clear: "activeDataset (clearAllFilters st) = activeDataset st"
  by (simp add: activeDataset_def clearAllFilters_def)

lemma processedRows_clear:
  "processedRows rt (clearAllFilters st) =
     (case activeDataset st of None \<Rightarrow> [] | Some d \<Rightarrow> sortStage rt (sortConfig st) (rows d))"
  unfolding processedRows_def activeDataset_clear
  by (simp add: clearAllFilters_def filterStage_def searchStage_def cong: option.case_cong)

text \<open>
  A rendered row carries its position in the pipeline's output: the index handed to the
  edit is an index into \<open>processedRows\<close>.
\<close>

lemma slice_nth:
  assumes "0 \<le> start" and "i < length (slice xs start fin)"
  shows "nat start + i < length xs \<and> slice xs start fin ! i = xs ! (nat start + i)"
proof -
  let ?len = "int (length xs)"
  let ?k = "min start ?len"
  let ?final = "if fin < 0 then max (?len + fin) 0 else min fin ?len"
  have sl: "slice xs start fin = take (nat (?final - ?k)) (drop (nat ?k) xs)"
    using assms(1) by (simp add: slice_def Let_def)
  have "i < length xs - nat ?k"
    using assms(2) unfolding sl by simp
  then have lt: "nat ?k + i < length xs" by simp
  then have k: "?k = start" using assms(1) by (simp add: min_def split: if_splits)
  have "slice xs start fin ! i = xs ! (nat ?k + i)"
    using assms(2) lt unfolding sl by simp
  with lt k show ?thesis by simp
qed

lemma startIndex_nonneg: "0 \<le> startIndex s"
  by (simp add: startIndex_def)

lemma visibleRows_position:
  assumes "v \<in> set (visibleRows processed s h)"
  shows "0 \<le> originalIndex v \<and> nat (originalIndex v) < length processed
         \<and> data v = processed ! nat (originalIndex v)"
proof -
  let ?sl = "slice processed (startIndex s) (endIndex (length processed) s h)"
  from assms obtain i where i: "i < length ?sl"
    and v: "v = \<lparr>data = ?sl ! i, originalIndex = startIndex s + int i\<rparr>"
    by (auto simp: visibleRows_def Let_def set_zip)
  from slice_nth [OF startIndex_nonneg i]
  have "nat (startIndex s) + i < length processed"
    and "?sl ! i = processed ! (nat (startIndex s) + i)" by simp_all
  moreover have "nat (startIndex s + int i) = nat (startIndex s) + i"
    using startIndex_nonneg [of s] by (simp add: nat_add_distrib)
  ultimately show ?thesis
    using v startIndex_nonneg [of s] by simp
qed

text \<open>
  Deduplication by serialised text: the kept rows have pairwise different texts, so a
  second pass keeps them all, and the first row of every text is the one kept.
\<close>

lemma deduplicate_keys:
  "distinct (map (JSON_stringify rt) (deduplicate rt seen rs))
   \<and> JSON_stringify rt ` set (deduplicate rt seen rs) \<inter> seen = {}"
proof (induction rs arbitrary: seen)
  case Nil
  show ?case by simp
next
  case (Cons r rs)
  show ?case
  proof (cases "JSON_stringify rt r \<in> seen")
    case True
    then show ?thesis using Cons.IH [of seen] by simp
  next
    case False
    then show ?thesis using Cons.IH [of "insert (JSON_stringify rt r) seen"]
      by (auto simp: Let_def)
  qed
qed

lemma deduplicate_fixed:
  "distinct (map (JSON_stringify rt) rs) \<Longrightarrow> JSON_stringify rt ` set rs \<inter> seen = {}
   \<Longrightarrow> deduplicate rt seen rs = rs"
proof (induction rs arbitrary: seen)
  case Nil
  show ?case by simp
next
  case (Cons r rs)
  have "JSON_stringify rt r \<notin> seen"
    using Cons.prems(2) by auto
  moreover have "deduplicate rt (insert (JSON_stringify rt r) seen) rs = rs"
    using Cons.prems by (intro Cons.IH) auto
  ultimately show ?case by (simp add: Let_def)
qed

lemma deduplicate_idem: "deduplicate rt {} (deduplicate rt {} rs) = deduplicate rt {} rs"
  using deduplicate_keys [of rt "{}" rs] by (intro deduplicate_fixed) simp_all

text \<open>
  The column drop when the dragged column is in the order: the result is a permutation
  of the order and holds the dragged column at the index the target had; with an empty
  drag payload, or on the column's own header, nothing changes.
\<close>

lemma indexOf_absent: "x \<notin> set xs \<Longrightarrow> indexOf xs x = - 1"
  by (induction xs) (auto simp: Let_def)

lemma indexOf_present:
  "x \<in> set xs \<Longrightarrow> 0 \<le> indexOf xs x \<and> nat (indexOf xs x) < length xs
     \<and> xs ! nat (indexOf xs x) = x"
proof (induction xs)
  case Nil
  then show ?case by simp
next
  case (Cons y ys)
  show ?case
  proof (cases "y = x")
    case True
    then show ?thesis by simp
  next
    case False
    then have "x \<in> set ys" using Cons.prems by simp
    from Cons.IH [OF this] False show ?thesis
      by (simp add: Let_def nat_add_distrib)
  qed
qed

lemma splice_remove_one:
  assumes "0 \<le> s" and "nat s < length xs"
  shows "splice' xs s 1 [] = take (nat s) xs @ drop (Suc (nat s)) xs"
proof -
  have k: "nat (min s (int (length xs))) = nat s"
    using assms by linarith
  have n: "min (Suc 0) (length xs - nat s) = Suc 0"
    using assms by linarith
  show ?thesis
    using assms(1) by (simp add: splice'_def Let_def k n)
qed

lemma splice_insert_one:
  assumes "0 \<le> t" and "nat t \<le> length ys"
  shows "splice' ys t 0 [x] = take (nat t) ys @ [x] @ drop (nat t) ys"
proof -
  have k: "nat (min t (int (length ys))) = nat t"
    using assms by linarith
  show ?thesis
    using assms(1) by (simp add: splice'_def Let_def k)
qed

lemma handleColumnDrop_reorders:
  assumes "sourceCol \<noteq> []" "sourceCol \<noteq> targetCol"
    and "sourceCol \<in> set (columnOrder st)" "targetCol \<in> set (columnOrder st)"
  shows "mset (columnOrder (handleColumnDrop sourceCol targetCol st)) = mset (columnOrder st)
    \<and> columnOrder (handleColumnDrop sourceCol targetCol st)
        ! nat (indexOf (columnOrder st) targetCol) = sourceCol"
proof -
  define xs where "xs = columnOrder st"
  define i where "i = nat (indexOf xs sourceCol)"
  define j where "j = nat (indexOf xs targetCol)"
  define removed where "removed = take i xs @ drop (Suc i) xs"
  from indexOf_present [of sourceCol xs] assms(3)
  have i: "0 \<le> indexOf xs sourceCol" "i < length xs" "xs ! i = sourceCol"
    by (simp_all add: xs_def i_def)
  from indexOf_present [of targetCol xs] assms(4)
  have j: "0 \<le> indexOf xs targetCol" "j < length xs"
    by (simp_all add: xs_def j_def)
  have rem: "splice' xs (indexOf xs sourceCol) 1 [] = removed"
    unfolding removed_def i_def
    by (rule splice_remove_one) (use i in \<open>simp_all add: i_def\<close>)
  have len: "Suc (length removed) = length xs"
    using i(2) by (simp add: removed_def)
  have jle: "j \<le> length removed"
    using j(2) len by linarith
  have ins: "splice' removed (indexOf xs targetCol) 0 [sourceCol]
      = take j removed @ [sourceCol] @ drop j removed"
    unfolding j_def
    by (rule splice_insert_one) (use j jle in \<open>simp_all add: j_def\<close>)
  have res: "columnOrder (handleColumnDrop sourceCol targetCol st)
      = take j removed @ [sourceCol] @ drop j removed"
    using assms(1,2) rem ins by (simp add: handleColumnDrop_def Let_def xs_def)
  have "xs = take i xs @ xs ! i # drop (Suc i) xs"
    using i(2) by (rule id_take_nth_drop)
  then have "mset xs = mset (take i xs @ xs ! i # drop (Suc i) xs)"
    by (rule arg_cong)
  then have m1: "mset xs = add_mset sourceCol (mset removed)"
    using i(3) by (simp add: removed_def)
  have parts: "mset (take j removed) + mset (drop j removed) = mset removed"
    unfolding mset_append [symmetric] by simp
  have m2: "mset (take j removed @ [sourceCol] @ drop j removed) = mset xs"
    by (simp add: parts m1)
  have n: "(take j removed @ [sourceCol] @ drop j removed) ! j = sourceCol"
    using jle by (simp add: nth_append)
  show ?thesis
    using res m2 n by (simp add: xs_def j_def)
qed

lemma handleColumnDrop_noop:
  "sourceCol = [] \<or> sourceCol = targetCol \<Longrightarrow> handleColumnDrop sourceCol targetCol st = st"
  by (simp add: handleColumnDrop_def)

text \<open>A key that is not stored, or stored as the empty text, loads as the text \<^verbatim>\<open>[]\<close>.\<close>

lemma persisted_load_default:
  "localStorage ''datasets'' = None \<or> localStorage ''datasets'' = Some []
     \<Longrightarrow> initialDatasets JSON_parse localStorage = JSON_parse ''[]''"
  "localStorage ''sessions'' = None \<or> localStorage ''sessions'' = Some []
     \<Longrightarrow> initialSessions JSON_parse localStorage = JSON_parse ''[]''"
  by (auto simp: initialDatasets_def initialSessions_def or_else_def)

subsection \<open>The claims\<close>

text \<open>
  C1. The claim: committing an edit on the row displayed at a window position updates,
  in the Row Store, the same row the pipeline displayed there. The code hands the
  position in the pipeline's output to the edit, which reads it as a Row Store position.
  With the rows Oslo and Rome and the filter city equals Rome, the only row displayed is
  Rome, with index 0; committing Roma there rewrites Oslo, the row at Row Store
  position 0, and leaves Rome as it was.
\<close>

theorem cell_edit_uses_display_index:
  "(let d = \<lparr>id' = ''d1'', name = ''cities.csv'', columns = [''city''],
             rows = [[(''city'', JStr ''Oslo'')], [(''city'', JStr ''Rome'')]],
             summary = []\<rparr>;
        st = (initialAppState [d])
              \<lparr>activeFilters := [\<lparr>filter_id = ''f1'', column = ''city'',
                                  operator = ''equals'', value' = JStr ''Rome'',
                                  valueEnd = JUndefined\<rparr>],
               tableContainerHeight := 650\<rparr>
    in renderedRows reference_runtime st
         = [\<lparr>data = [(''city'', JStr ''Rome'')], originalIndex = 0\<rparr>]
     \<and> handleCellEdit reference_runtime 0 ''city'' (JStr ''Roma'') st
         = Inr (st\<lparr>datasets :=
                  [d\<lparr>rows := [[(''city'', JStr ''Roma'')], [(''city'', JStr ''Rome'')]]\<rparr>]\<rparr>))"
  by code_simp


text \<open>
  C3, as stated: for every scroll offset and container height that are not negative,
  0 \<le> startIndex \<le> endIndex \<le> totalRowCount. The start index is clamped below only, so
  with 10 rows and a scroll offset of 1300 (the offset left over from a longer view)
  the start index is 15 and the end index is 10.
\<close>

theorem window_bounds_counterexample:
  "(0::rat) \<le> 1300 \<and> (0::rat) \<le> 650
   \<and> \<not> (0 \<le> startIndex 1300 \<and> startIndex 1300 \<le> endIndex 10 1300 650
          \<and> endIndex 10 1300 650 \<le> int 10)"
  by (simp add: startIndex_def endIndex_def ROW_HEIGHT_def BUFFER_COUNT_def)

text \<open>
  C3, amended: for every scroll offset and container height that are not negative,
  0 \<le> startIndex and 0 \<le> endIndex \<le> totalRowCount; and startIndex \<le> endIndex whenever
  the scroll offset does not exceed the total content height (row count times 65).
\<close>

theorem window_bounds:
  assumes "0 \<le> s" and "0 \<le> h"
  shows "0 \<le> startIndex s \<and> 0 \<le> endIndex n s h \<and> endIndex n s h \<le> int n
         \<and> (s \<le> of_int (totalContentHeight n) \<longrightarrow> startIndex s \<le> endIndex n s h)"
proof -
  have fl: "0 \<le> \<lfloor>s / 65\<rfloor>"
    using assms(1) by simp
  have mono: "\<lfloor>s / 65\<rfloor> \<le> \<lceil>(s + h) / 65\<rceil>"
  proof -
    have "s / 65 \<le> (s + h) / 65"
      using assms(2) by (simp add: divide_right_mono)
    then have "\<lfloor>s / 65\<rfloor> \<le> \<lfloor>(s + h) / 65\<rfloor>"
      by (rule floor_mono)
    also have "\<dots> \<le> \<lceil>(s + h) / 65\<rceil>"
      by (rule floor_le_ceiling)
    finally show ?thesis .
  qed
  have within: "\<lfloor>s / 65\<rfloor> \<le> int n" if "s \<le> of_int (int n * 65)"
  proof -
    have "s / 65 \<le> of_int (int n)"
      using that by simp
    then have "\<lfloor>s / 65\<rfloor> \<le> \<lfloor>(of_int (int n) :: rat)\<rfloor>"
      by (rule floor_mono)
    then show ?thesis by simp
  qed
  have ce: "0 \<le> \<lceil>(s + h) / 65\<rceil>"
    using fl mono by linarith
  have st: "startIndex s = max 0 (\<lfloor>s / 65\<rfloor> - 5)"
    by (simp add: startIndex_def ROW_HEIGHT_def BUFFER_COUNT_def)
  have en: "endIndex n s h = min (int n) (\<lceil>(s + h) / 65\<rceil> + 5)"
    by (simp add: endIndex_def ROW_HEIGHT_def BUFFER_COUNT_def)
  have c1: "0 \<le> startIndex s"
    unfolding st by simp
  have c2: "0 \<le> endIndex n s h"
    unfolding en using ce by simp
  have c3: "endIndex n s h \<le> int n"
    unfolding en by simp
  have c4: "startIndex s \<le> endIndex n s h" if "s \<le> of_int (totalContentHeight n)"
  proof -
    have "\<lfloor>s / 65\<rfloor> \<le> int n"
      using that within by (simp add: totalContentHeight_def ROW_HEIGHT_def)
    then show ?thesis
      unfolding st en using ce mono by linarith
  qed
  show ?thesis
    using c1 c2 c3 c4 by blast
qed

theorem window_bounds_witness:
  "(0::rat) \<le> 1300 \<and> (0::rat) \<le> 650 \<and> (1300::rat) \<le> of_int (totalContentHeight 1000)
   \<and> 0 \<le> startIndex 1300 \<and> startIndex 1300 \<le> endIndex 1000 1300 650
   \<and> endIndex 1000 1300 650 \<le> int 1000"
  using window_bounds [of 1300 650 1000]
  by (simp add: totalContentHeight_def ROW_HEIGHT_def)



text \<open>
  C5. A sort request on the column that is already the sort column moves the direction
  one step along none, ascending, descending, none; a request on any other column gives
  that column with direction ascending, whatever the state before. Three requests on
  one column starting from no direction end at no direction.
\<close>

theorem handleSort_cycle:
  "key (handleSort k prev) = k
   \<and> direction (handleSort k prev) =
       (if key prev = k
        then (case direction prev of
                None \<Rightarrow> Some Asc
              | Some Asc \<Rightarrow> Some Desc
              | Some Desc \<Rightarrow> None)
        else Some Asc)
   \<and> handleSort k \<lparr>key = k, direction = None\<rparr> = \<lparr>key = k, direction = Some Asc\<rparr>
   \<and> handleSort k \<lparr>key = k, direction = Some Asc\<rparr> = \<lparr>key = k, direction = Some Desc\<rparr>
   \<and> handleSort k \<lparr>key = k, direction = Some Desc\<rparr> = \<lparr>key = k, direction = None\<rparr>"
  by (simp add: handleSort_def split: option.split direction.split)

text \<open>
  C6. For every row list and every two filters A and B, filtering by A and then by B
  equals filtering by B and then by A, and both equal filtering once by the list [A, B].
\<close>

theorem filterStage_conjunction:
  "filterStage rt [B] (filterStage rt [A] rs) = filterStage rt [A] (filterStage rt [B] rs)
   \<and> filterStage rt [B] (filterStage rt [A] rs) = filterStage rt [A, B] rs"
  by (auto simp: filterStage_as_filter intro: filter_cong)

text \<open>
  C7. The claim: rows are compared by structural equality over all columns, the first
  of equal rows is kept and later equal rows are dropped. The comparison is on the
  \<^verbatim>\<open>JSON.stringify\<close> text, which writes every number that is not finite as
  \<^verbatim>\<open>null\<close>: a row holding Infinity and a row holding -Infinity have the same text,
  and the second, a different row, is dropped.
\<close>

theorem deduplicate_merges_infinities:
  "cleanRows reference_runtime
     \<lparr>suggestion_id = ''s1'', suggestion_column = ''a'',
      suggestion = ''Remove duplicate rows'', actionType = Some ''deduplicate''\<rparr>
     [[(''a'', JNum PosInfinity)], [(''a'', JNum NegInfinity)]]
   = [[(''a'', JNum PosInfinity)]]"
  by code_simp

text \<open>
  C8. The claim: the drop is a no-op when the source column is not found in the order.
  The guard tests only for an empty drag payload; for a source name that is not in the
  order, \<^verbatim>\<open>indexOf\<close> gives -1, \<^verbatim>\<open>splice(-1, 1)\<close> removes the last column and the
  name is inserted at the target's index. Dropping the foreign name zz on column a of
  the order a, b, c gives zz, a, b.
\<close>

theorem handleColumnDrop_foreign_source:
  "columnOrder (handleColumnDrop ''zz'' ''a''
      ((initialAppState [])\<lparr>columnOrder := [''a'', ''b'', ''c'']\<rparr>))
   = [''zz'', ''a'', ''b'']"
  by code_simp

text \<open>
  C9. The claim: the start-up load never throws, a corrupt stored value loading as the
  empty collection. The initializers call \<^verbatim>\<open>JSON.parse\<close> on the stored text with
  nothing to catch its exception: when the text stored under either key is not empty
  and \<^verbatim>\<open>JSON.parse\<close> throws on it, the initializer throws the same error, and so does
  the start-up.
\<close>

theorem persisted_load_throws:
  assumes "s \<noteq> []" and "JSON_parse s = Inl e"
  shows "(localStorage ''datasets'' = Some s \<longrightarrow>
            initialDatasets JSON_parse localStorage = Inl e
            \<and> initialState JSON_parse parse_sessions localStorage = Inl e)
       \<and> (localStorage ''sessions'' = Some s \<longrightarrow>
            initialSessions JSON_parse localStorage = Inl e)"
  using assms
  by (simp add: initialDatasets_def initialSessions_def initialState_def or_else_def)

theorem persisted_load_throws_witness:
  "''{oops'' \<noteq> [] \<and> (array_literal_parse ''{oops'' :: js_error + Dataset list) = Inl SyntaxError
   \<and> initialDatasets (array_literal_parse :: string \<Rightarrow> js_error + Dataset list)
        [''datasets'' \<mapsto> ''{oops''] = Inl SyntaxError
   \<and> initialState (array_literal_parse :: string \<Rightarrow> js_error + Dataset list)
        (array_literal_parse :: string \<Rightarrow> js_error + unit list)
        [''datasets'' \<mapsto> ''{oops''] = Inl SyntaxError
   \<and> initialSessions (array_literal_parse :: string \<Rightarrow> js_error + unit list)
        [''sessions'' \<mapsto> ''{oops''] = Inl SyntaxError"
proof -
  have rd: "(array_literal_parse ''{oops'' :: js_error + Dataset list) = Inl SyntaxError"
    by (simp add: array_literal_parse_def ascii_trim_def ascii_space_def)
  have rs: "(array_literal_parse ''{oops'' :: js_error + unit list) = Inl SyntaxError"
    by (simp add: array_literal_parse_def ascii_trim_def ascii_space_def)
  show ?thesis
    using rd
      persisted_load_throws [where s = "''{oops''" and e = SyntaxError
        and JSON_parse = "array_literal_parse :: string \<Rightarrow> js_error + Dataset list"
        and parse_sessions = "array_literal_parse :: string \<Rightarrow> js_error + unit list"
        and localStorage = "[''datasets'' \<mapsto> ''{oops'']"]
      persisted_load_throws [where s = "''{oops''" and e = SyntaxError
        and JSON_parse = "array_literal_parse :: string \<Rightarrow> js_error + unit list"
        and localStorage = "[''sessions'' \<mapsto> ''{oops'']", OF _ rs]
    by simp
qed

text \<open>
  C10. Clearing all filters empties the filter list and the search text in one step and
  leaves the sort configuration (and the datasets) as they were; the pipeline then
  yields the rows of the active dataset passed through the sort stage alone: a
  reordering of the Row Store, and the Row Store order itself when no sort is active.
\<close>

theorem clearAllFilters_effect:
  "activeFilters (clearAllFilters st) = []
   \<and> searchQuery (clearAllFilters st) = []
   \<and> sortConfig (clearAllFilters st) = sortConfig st
   \<and> datasets (clearAllFilters st) = datasets st
   \<and> (case activeDataset st of
         None \<Rightarrow> processedRows rt (clearAllFilters st) = []
       | Some d \<Rightarrow>
           processedRows rt (clearAllFilters st) = sortStage rt (sortConfig st) (rows d)
           \<and> mset (processedRows rt (clearAllFilters st)) = mset (rows d)
           \<and> (key (sortConfig st) = [] \<or> direction (sortConfig st) = None
                \<longrightarrow> processedRows rt (clearAllFilters st) = rows d))"
proof -
  have fields: "activeFilters (clearAllFilters st) = []
      \<and> searchQuery (clearAllFilters st) = []
      \<and> sortConfig (clearAllFilters st) = sortConfig st
      \<and> datasets (clearAllFilters st) = datasets st"
    by (simp add: clearAllFilters_def)
  have pipe: "(case activeDataset st of
         None \<Rightarrow> processedRows rt (clearAllFilters st) = []
       | Some d \<Rightarrow>
           processedRows rt (clearAllFilters st) = sortStage rt (sortConfig st) (rows d)
           \<and> mset (processedRows rt (clearAllFilters st)) = mset (rows d)
           \<and> (key (sortConfig st) = [] \<or> direction (sortConfig st) = None
                \<longrightarrow> processedRows rt (clearAllFilters st) = rows d))"
  proof (cases "activeDataset st")
    case None
    then show ?thesis by (simp add: processedRows_clear)
  next
    case (Some d)
    then have p: "processedRows rt (clearAllFilters st) = sortStage rt (sortConfig st) (rows d)"
      by (simp add: processedRows_clear)
    have "key (sortConfig st) = [] \<or> direction (sortConfig st) = None
        \<longrightarrow> sortStage rt (sortConfig st) (rows d) = rows d"
      by (simp add: sortStage_def)
    with p Some show ?thesis
      by (simp add: mset_sortStage)
  qed
  from fields pipe show ?thesis by blast
qed

theorem clearAllFilters_effect_witness:
  "(let d = \<lparr>id' = ''d1'', name = ''n.csv'', columns = [''n''],
             rows = [[(''n'', JNum (Finite 3))], [(''n'', JNum (Finite 1))], [(''n'', JNum (Finite 2))]],
             summary = []\<rparr>;
        st = (initialAppState [d])
              \<lparr>activeFilters := [\<lparr>filter_id = ''f1'', column = ''n'', operator = ''gt'',
                                  value' = JStr ''1'', valueEnd = JUndefined\<rparr>],
               searchQuery := ''3'',
               sortConfig := \<lparr>key = ''n'', direction = Some Desc\<rparr>\<rparr>
    in activeDataset st = Some d
     \<and> processedRows reference_runtime st = [[(''n'', JNum (Finite 3))]]
     \<and> activeFilters (clearAllFilters st) = []
     \<and> searchQuery (clearAllFilters st) = []
     \<and> sortConfig (clearAllFilters st) = \<lparr>key = ''n'', direction = Some Desc\<rparr>
     \<and> processedRows reference_runtime (clearAllFilters st)
         = [[(''n'', JNum (Finite 3))], [(''n'', JNum (Finite 2))], [(''n'', JNum (Finite 1))]])"
proof -
  let ?d = "\<lparr>id' = ''d1'', name = ''n.csv'', columns = [''n''],
             rows = [[(''n'', JNum (Finite 3))], [(''n'', JNum (Finite 1))], [(''n'', JNum (Finite 2))]],
             summary = []\<rparr>"
  let ?st = "(initialAppState [?d])
              \<lparr>activeFilters := [\<lparr>filter_id = ''f1'', column = ''n'', operator = ''gt'',
                                  value' = JStr ''1'', valueEnd = JUndefined\<rparr>],
               searchQuery := ''3'',
               sortConfig := \<lparr>key = ''n'', direction = Some Desc\<rparr>\<rparr>"
  have a: "activeDataset ?st = Some ?d" by code_simp
  have sc: "sortConfig ?st = \<lparr>key = ''n'', direction = Some Desc\<rparr>" by code_simp
  have before: "processedRows reference_runtime ?st = [[(''n'', JNum (Finite 3))]]" by code_simp
  have sorted: "sortStage reference_runtime \<lparr>key = ''n'', direction = Some Desc\<rparr> (rows ?d)
      = [[(''n'', JNum (Finite 3))], [(''n'', JNum (Finite 2))], [(''n'', JNum (Finite 1))]]"
    by code_simp
  from clearAllFilters_effect [of ?st reference_runtime] a
  have "activeFilters (clearAllFilters ?st) = []
     \<and> searchQuery (clearAllFilters ?st) = []
     \<and> sortConfig (clearAllFilters ?st) = sortConfig ?st
     \<and> processedRows reference_runtime (clearAllFilters ?st)
         = sortStage reference_runtime (sortConfig ?st) (rows ?d)"
    by simp
  with a sc before sorted show ?thesis
    unfolding Let_def by simp
qed

end
